theory Spec2Isabelle
  imports Main "HOL-Library.Sublist"
begin

section \<open>Python strings\<close>

text \<open>
  The generator in \<^verbatim>\<open>ccinput/packages/nwchem.py\<close> is text manipulation throughout, so the
  first part of the development fixes what the string operations of the source mean.
  A Python \<^verbatim>\<open>str\<close> is modelled as a \<^typ>\<open>string\<close>; characters are 8-bit, and the
  case conversion acts on the ASCII letters only (every other character is deleted by
  \<^verbatim>\<open>clean\<close> before it reaches the document).
\<close>

definition NL :: string where
  "NL = [CHR 0x0A]"

text \<open>\<^verbatim>\<open>p in s\<close> and \<^verbatim>\<open>s.find(p) != -1\<close>: \<open>p\<close> occurs in \<open>s\<close> as a contiguous run.\<close>

definition py_in :: "string \<Rightarrow> string \<Rightarrow> bool" where
  "py_in p s = sublist p s"

text \<open>The characters \<^verbatim>\<open>str.strip()\<close> and \<^verbatim>\<open>str.split()\<close> treat as white space.\<close>

definition is_space :: "char \<Rightarrow> bool" where
  "is_space c = (c \<in> set [CHR 0x09, CHR 0x0A, CHR 0x0B, CHR 0x0C, CHR 0x0D,
                            CHR 0x1C, CHR 0x1D, CHR 0x1E, CHR 0x1F, CHR 0x20])"

definition strip :: "string \<Rightarrow> string" where
  "strip s = rev (dropWhile is_space (rev (dropWhile is_space s)))"

definition lower_char :: "char \<Rightarrow> char" where
  "lower_char c =
     (case map_of (zip ''ABCDEFGHIJKLMNOPQRSTUVWXYZ'' ''abcdefghijklmnopqrstuvwxyz'') c of
        Some d \<Rightarrow> d
      | None \<Rightarrow> c)"

definition lower :: "string \<Rightarrow> string" where
  "lower s = map lower_char s"

text \<open>\<^verbatim>\<open>s.split(c)\<close> for a separator of one character: never an empty list.\<close>

fun split_on :: "char \<Rightarrow> string \<Rightarrow> string list" where
  "split_on c [] = [[]]"
| "split_on c (x # xs) =
     (if x = c then [] # split_on c xs
      else (case split_on c xs of
              [] \<Rightarrow> [[x]]
            | l # ls \<Rightarrow> (x # l) # ls))"

text \<open>\<^verbatim>\<open>sep.join(ls)\<close>.\<close>

fun join :: "string \<Rightarrow> string list \<Rightarrow> string" where
  "join sep [] = []"
| "join sep [l] = l"
| "join sep (l # ls) = l @ sep @ join sep ls"

text \<open>
  \<^verbatim>\<open>s.replace(p, r)\<close>: the occurrences of \<open>p\<close> are found from the left and do not
  overlap. With an empty \<open>p\<close> Python puts \<open>r\<close> around every character.
\<close>

function py_replace :: "string \<Rightarrow> string \<Rightarrow> string \<Rightarrow> string" where
  "py_replace p r [] = (if p = [] then r else [])"
| "py_replace p r (c # cs) =
     (if p = [] then r @ c # py_replace p r cs
      else if prefix p (c # cs) then r @ py_replace p r (drop (length p) (c # cs))
      else c # py_replace p r cs)"
  by pat_completeness auto
termination
  by (relation "measure (\<lambda>(p, r, s). length s)") (auto simp: neq_Nil_conv)

section \<open>The generator's state\<close>

text \<open>
  The attributes of \<^verbatim>\<open>NWChemCalculation\<close> that the pipeline reads or writes. The
  attribute \<^verbatim>\<open>basis_set\<close> is not set by the constructor: \<open>None\<close> is the absent
  attribute. \<open>warnings\<close> collects the calls of \<^verbatim>\<open>warn\<close>, \<open>files\<close> the side files
  written (name, content) and \<open>stdout\<close> what is printed. The attributes that are only
  initialised (\<^verbatim>\<open>has_scan\<close>, \<^verbatim>\<open>appendix\<close>, \<^verbatim>\<open>command_line\<close>, \<^verbatim>\<open>commands\<close>) are
  left out.
\<close>

record NWChemCalculation =
  method_block :: string
  calculation_block :: string
  additional_block :: string
  solvation_radii :: "(string \<times> string) list"
  xyz_structure :: string
  tasks :: string
  input_file :: string
  basis_set :: "string option"
  warnings :: "string list"
  files :: "(string \<times> string) list"
  stdout :: "string list"

definition WHITELIST :: string where
  "WHITELIST =
     ''0123456789abcdefghijklmnopqrstuvwxyzABCDEFGHIJKLMNOPQRSTUVWXYZ/()=-,._ ''"

definition clean :: "string \<Rightarrow> string" where
  "clean s = filter (\<lambda>c. c \<in> set WHITELIST) s"

section \<open>Stage 7: closing the blocks\<close>

definition END_MARK :: string where
  "END_MARK = ''end '' @ NL"

definition close_blocks :: "NWChemCalculation \<Rightarrow> NWChemCalculation" where
  "close_blocks st =
     (let st1 = (if \<not> py_in END_MARK (method_block st) \<and> method_block st \<noteq> []
                 then st\<lparr>method_block := method_block st @ '' end '' @ NL\<rparr> else st);
          st2 = (if \<not> py_in END_MARK (calculation_block st1) \<and> calculation_block st1 \<noteq> []
                 then st1\<lparr>calculation_block := calculation_block st1 @ '' end '' @ NL\<rparr>
                 else st1);
          st3 = (if \<not> py_in END_MARK (additional_block st2) \<and> clean (additional_block st2) \<noteq> []
                 then st2\<lparr>additional_block := additional_block st2 @ ''end '' @ NL\<rparr>
                 else st2)
      in st3)"

section \<open>Properties\<close>

lemma py_in_closed_sp: "py_in END_MARK (b @ '' end '' @ NL)"
proof -
  have "b @ '' end '' @ NL = (b @ '' '') @ END_MARK"
    by (simp add: END_MARK_def)
  then show ?thesis
    unfolding py_in_def by (metis sublist_append_leftI)
qed

lemma py_in_closed: "py_in END_MARK (b @ ''end '' @ NL)"
  unfolding py_in_def END_MARK_def by (rule sublist_append_leftI)

lemma close_blocks_method:
  "method_block (close_blocks st) =
     (if \<not> py_in END_MARK (method_block st) \<and> method_block st \<noteq> []
      then method_block st @ '' end '' @ NL else method_block st)"
  by (simp add: close_blocks_def Let_def)

lemma close_blocks_calculation:
  "calculation_block (close_blocks st) =
     (if \<not> py_in END_MARK (calculation_block st) \<and> calculation_block st \<noteq> []
      then calculation_block st @ '' end '' @ NL else calculation_block st)"
  by (simp add: close_blocks_def Let_def)

lemma close_blocks_additional:
  "additional_block (close_blocks st) =
     (if \<not> py_in END_MARK (additional_block st) \<and> clean (additional_block st) \<noteq> []
      then additional_block st @ ''end '' @ NL else additional_block st)"
  by (simp add: close_blocks_def Let_def)

lemma close_blocks_frame:
  "solvation_radii (close_blocks st) = solvation_radii st"
  "xyz_structure (close_blocks st) = xyz_structure st"
  "tasks (close_blocks st) = tasks st"
  "input_file (close_blocks st) = input_file st"
  "basis_set (close_blocks st) = basis_set st"
  "warnings (close_blocks st) = warnings st"
  "files (close_blocks st) = files st"
  "stdout (close_blocks st) = stdout st"
  "NWChemCalculation.more (close_blocks st) = NWChemCalculation.more st"
  by (simp_all add: close_blocks_def Let_def)

text \<open>
  Claim C9. The Block Closer is idempotent: whatever the method, calculation-type and
  ancillary buffers hold, running \<open>close_blocks\<close> a second time changes nothing.
\<close>

theorem close_blocks_idempotent: "close_blocks (close_blocks st) = close_blocks st"
proof (rule NWChemCalculation.equality)
  show "method_block (close_blocks (close_blocks st)) = method_block (close_blocks st)"
    using py_in_closed_sp [of "method_block st"] by (simp add: close_blocks_method)
  show "calculation_block (close_blocks (close_blocks st)) = calculation_block (close_blocks st)"
    using py_in_closed_sp [of "calculation_block st"] by (simp add: close_blocks_calculation)
  show "additional_block (close_blocks (close_blocks st)) = additional_block (close_blocks st)"
    using py_in_closed [of "additional_block st"] by (simp add: close_blocks_additional)
qed (simp_all only: close_blocks_frame)

end
